theory Spec2Isabelle
  imports Main "HOL-Library.Word"
begin

unbundle bit_operations_syntax

section \<open>The proof-of-stake kernel of pos.cpp\<close>

text \<open>
  A shallow embedding of \<^verbatim>\<open>src/pos.cpp\<close>. Each C++ function is a HOL function of the
  same name. Reference parameters that the code writes (\<^verbatim>\<open>hashProofOfStake\<close>,
  \<^verbatim>\<open>targetProofOfStake\<close>, \<^verbatim>\<open>mposScriptList\<close>, \<^verbatim>\<open>txNew\<close>) and the global
  \<^verbatim>\<open>scriptsMap\<close> are passed in and returned. Logging (\<^verbatim>\<open>LogPrintf\<close>, \<^verbatim>\<open>error\<close>)
  has no effect on any result and is left out; \<^verbatim>\<open>error(...)\<close> returns false.

  The collaborators that pos.cpp calls but does not define (the hash function, the
  compact-target decoder, the chain index, the historical coin lookup, the stake-address
  index, the script classifier) are parameters of the model: every general theorem below
  holds for all of them.
\<close>

subsection \<open>Data\<close>

type_synonym byte = "8 word"
type_synonym uint32 = "32 word"
type_synonym uint160 = "160 word"
type_synonym uint256 = "256 word"
type_synonym CAmount = "64 word"
type_synonym CScript = "byte list"

text \<open>
  \<^verbatim>\<open>uint256\<close> values are identified with the 256-bit number that \<^verbatim>\<open>UintToArith256\<close>
  reads from them, so \<^verbatim>\<open>ArithToUint256\<close> and \<^verbatim>\<open>UintToArith256\<close> are the identity and
  \<^verbatim>\<open>arith_uint256\<close> arithmetic is arithmetic modulo \<open>2 ^ 256\<close>. A \<^verbatim>\<open>CAmount\<close> is an
  \<^verbatim>\<open>int64_t\<close>, kept as its 64-bit pattern.
\<close>

record COutPoint =
  op_hash :: uint256
  op_n :: uint32

text \<open>
  The fields of \<^verbatim>\<open>CBlockIndex\<close> that pos.cpp reads. \<open>index_nHeight\<close> is its
  \<^verbatim>\<open>nHeight\<close>, a C \<^verbatim>\<open>int\<close>; \<^verbatim>\<open>nTime\<close> is an unsigned 32-bit value; \<open>blockHash\<close> is
  what \<^verbatim>\<open>GetBlockHash()\<close> returns and \<open>isProofOfStake\<close> what \<^verbatim>\<open>IsProofOfStake()\<close>
  returns.
\<close>

record CBlockIndex =
  index_nHeight :: int
  nTime :: uint32
  nStakeModifier :: uint256
  blockHash :: uint256
  isProofOfStake :: bool

subsection \<open>Coins, transactions and the collaborators\<close>

record CTxOut =
  nValue :: CAmount
  scriptPubKey :: CScript

text \<open>
  Modelled from the spec: \<^verbatim>\<open>Coin\<close> (coins.h) is not under src/. The spec gives an
  output looked up in the view a value, an owning script, a height of confirmation and a
  spent flag; \<open>spent\<close> is what \<^verbatim>\<open>IsSpent()\<close> returns. Heights are C \<^verbatim>\<open>int\<close>s; the
  arithmetic on them is taken without overflow, except for the bounds of the window of
  \<open>NeedToEraseScriptFromCache\<close>, where the wrap-around is written out.
\<close>

record Coin =
  out :: CTxOut
  coin_nHeight :: int
  spent :: bool

record CStakeCache =
  cache_blockFromTime :: uint32
  cache_amount :: CAmount

record CTransaction =
  vin :: "COutPoint list"
  vout :: "CTxOut list"

record CBlock =
  prevoutStake :: COutPoint
  vtx :: "CTransaction list"

record ConsensusParams =
  nMPoSRewardRecipients :: int

text \<open>
  The script classes and destinations of script/standard.h that pos.cpp names; the
  classes and destinations it does not name are \<open>TX_OTHER\<close> and \<open>OtherDestination\<close>.
\<close>

datatype txnouttype = TX_NONSTANDARD | TX_PUBKEY | TX_PUBKEYHASH | TX_OTHER

datatype CTxDestination =
    CNoDestination
  | CKeyID (get_CKeyID: uint160)
  | CScriptID uint160
  | OtherDestination

text \<open>
  What pos.cpp calls and does not define. \<open>Hash\<close> is the hash function of hash.h;
  \<open>GetCoin\<close> of the view is the lookup in a map;
  \<open>ExtractDestination\<close> returns the destination and the script class it wrote when it
  returned true; \<open>ReadStakeIndex\<close> returns the address it wrote when it returned true;
  \<open>superStakers\<close> is the static table of privileged scripts.
\<close>

record Env =
  Hash :: "byte list \<Rightarrow> uint256"
  SetCompact :: "uint32 \<Rightarrow> uint256"
  GetAncestor :: "CBlockIndex \<Rightarrow> int \<Rightarrow> CBlockIndex option"
  GetSpentCoinFromMainChain :: "CBlockIndex \<Rightarrow> COutPoint \<Rightarrow> Coin option"
  superStakers :: "CScript list"
  COINBASE_MATURITY :: int
  chainActive :: "int \<Rightarrow> CBlockIndex option"
  ReadStakeIndex :: "int \<Rightarrow> uint160 option"
  MineBlocksOnDemand :: bool
  ExtractDestination :: "CScript \<Rightarrow> (CTxDestination \<times> txnouttype) option"

type_synonym CCoinsViewCache = "COutPoint \<Rightarrow> Coin option"

subsection \<open>Serialization into the hash stream\<close>

text \<open>
  Modelled from the spec: \<^verbatim>\<open>CDataStream::operator<<\<close> (serialize.h) is not under src/.
  The spec calls the hashed data the concatenation of the values; an integer of \<open>k\<close>
  bytes is written as its \<open>k\<close> bytes, least significant first, and a \<^verbatim>\<open>uint256\<close> as its
  32 bytes.
\<close>

definition le_bytes :: "nat \<Rightarrow> 'a::len word \<Rightarrow> byte list" where
  "le_bytes k w = map (\<lambda>i. ucast (drop_bit (8 * i) w)) [0..<k]"

definition ser_uint256 :: "uint256 \<Rightarrow> byte list" where
  "ser_uint256 w = le_bytes 32 w"

definition ser_uint32 :: "uint32 \<Rightarrow> byte list" where
  "ser_uint32 w = le_bytes 4 w"

subsection \<open>ComputeStakeModifier\<close>

text \<open>
  The bytes that \<^verbatim>\<open>ComputeStakeModifier\<close> streams into \<^verbatim>\<open>ss\<close>:
  \<^verbatim>\<open>ss << kernel << pindexPrev->nStakeModifier\<close>.
\<close>

definition StakeModifierStream :: "CBlockIndex \<Rightarrow> uint256 \<Rightarrow> byte list" where
  "StakeModifierStream pindexPrev kernelHash =
     ser_uint256 kernelHash @ ser_uint256 (nStakeModifier pindexPrev)"

text \<open>
  \<^verbatim>\<open>pindexPrev\<close> is a pointer: \<open>None\<close> is the null pointer. \<open>Hash env\<close> is the
  hash function of hash.h. The source's \<^verbatim>\<open>kernel\<close> is \<open>kernelHash\<close> (\<open>kernel\<close> is a
  constant of HOL).
\<close>

definition ComputeStakeModifier :: "Env \<Rightarrow> CBlockIndex option \<Rightarrow> uint256 \<Rightarrow> uint256" where
  "ComputeStakeModifier env pindexPrev kernelHash =
     (case pindexPrev of
        None \<Rightarrow> 0
      | Some p \<Rightarrow> Hash env (StakeModifierStream p kernelHash))"

subsection \<open>CheckStakeKernelHash\<close>

text \<open>
  The result of \<^verbatim>\<open>CheckStakeKernelHash\<close>: the returned flag and the two reference
  parameters as the call leaves them.
\<close>

record KernelResult =
  accepted :: bool
  hashProofOfStake :: uint256
  targetProofOfStake :: uint256

text \<open>
  The bytes streamed into \<^verbatim>\<open>ss\<close>: \<^verbatim>\<open>ss << nStakeModifier\<close>, then
  \<^verbatim>\<open>ss << blockFromTime << prevout.hash << prevout.n << nTimeBlock\<close>.
\<close>

definition KernelHashStream :: "CBlockIndex \<Rightarrow> uint32 \<Rightarrow> COutPoint \<Rightarrow> uint32 \<Rightarrow> byte list" where
  "KernelHashStream pindexPrev blockFromTime prevout nTimeBlock =
     ser_uint256 (nStakeModifier pindexPrev) @ ser_uint32 blockFromTime @
     ser_uint256 (op_hash prevout) @ ser_uint32 (op_n prevout) @ ser_uint32 nTimeBlock"

text \<open>
  \<open>SetCompact env\<close> is \<^verbatim>\<open>arith_uint256::SetCompact\<close>, which sets the target from the
  compact bits. \<open>hashProofOfStake0\<close> and \<open>targetProofOfStake0\<close> are
  the values the caller's variables hold when the call is made. \<^verbatim>\<open>pindexPrev\<close> is
  dereferenced without a test, so it is a block index, not an optional one.
  \<^verbatim>\<open>arith_uint256(nValueIn)\<close> takes the 64-bit pattern of the amount, zero extended;
  \<^verbatim>\<open>bnTarget *= bnWeight\<close> is a 256-bit product; \<^verbatim>\<open>pindexPrev->nTime + 64\<close> is unsigned
  32-bit arithmetic. \<^verbatim>\<open>fPrintProofOfStake\<close> only selects log lines.
\<close>

definition CheckStakeKernelHash ::
  "Env \<Rightarrow> CBlockIndex \<Rightarrow> uint32 \<Rightarrow> uint32 \<Rightarrow> CAmount \<Rightarrow> COutPoint \<Rightarrow> uint32 \<Rightarrow>
   uint256 \<Rightarrow> uint256 \<Rightarrow> bool \<Rightarrow> KernelResult" where
  "CheckStakeKernelHash env pindexPrev nBits blockFromTime prevoutValue prevout
     nTimeBlock hashProofOfStake0 targetProofOfStake0 isSuperStaker =
     (if nTimeBlock < blockFromTime then
        \<lparr>accepted = False, hashProofOfStake = hashProofOfStake0,
         targetProofOfStake = targetProofOfStake0\<rparr>
      else
        let bnTarget = SetCompact env nBits;
            bnWeight = (ucast prevoutValue :: uint256);
            bnTarget = bnTarget * bnWeight;
            hashProof = Hash env (KernelHashStream pindexPrev blockFromTime prevout
                                    nTimeBlock)
        in if (\<not> isSuperStaker \<or> nTimeBlock < nTime pindexPrev + 64) \<and> hashProof > bnTarget
           then \<lparr>accepted = False, hashProofOfStake = hashProof,
                 targetProofOfStake = bnTarget\<rparr>
           else \<lparr>accepted = True, hashProofOfStake = hashProof,
                 targetProofOfStake = bnTarget\<rparr>)"

subsection \<open>CheckKernel\<close>

text \<open>
  The two overloads: \<open>CheckKernel\<close> without a cache calls \<open>CheckKernel_cache\<close> with the
  empty map \<^verbatim>\<open>tmp\<close>; \<open>CheckKernel_cache\<close> calls \<open>CheckKernel\<close> after a cache hit whose
  tentative check passed. The local \<^verbatim>\<open>hashProofOfStake\<close> and \<^verbatim>\<open>targetProofOfStake\<close>
  are default constructed, that is zero.
\<close>

function CheckKernel ::
    "Env \<Rightarrow> CBlockIndex \<Rightarrow> uint32 \<Rightarrow> uint32 \<Rightarrow> COutPoint \<Rightarrow> CCoinsViewCache \<Rightarrow> bool"
  and CheckKernel_cache ::
    "Env \<Rightarrow> CBlockIndex \<Rightarrow> uint32 \<Rightarrow> uint32 \<Rightarrow> COutPoint \<Rightarrow> CCoinsViewCache \<Rightarrow>
     (COutPoint \<Rightarrow> CStakeCache option) \<Rightarrow> bool"
where
  "CheckKernel env pindexPrev nBits nTimeBlock prevout view =
     CheckKernel_cache env pindexPrev nBits nTimeBlock prevout view Map.empty"
| "CheckKernel_cache env pindexPrev nBits nTimeBlock prevout view cache =
     (case (case view prevout of
              Some c \<Rightarrow> Some c
            | None \<Rightarrow> GetSpentCoinFromMainChain env pindexPrev prevout) of
        None \<Rightarrow> False
      | Some coinPrev \<Rightarrow>
          let isSuperStaker = (superStakers env \<noteq> [] \<and>
                               scriptPubKey (out coinPrev) \<in> set (superStakers env))
          in (case cache prevout of
                None \<Rightarrow>
                  if \<not> isSuperStaker \<and>
                     index_nHeight pindexPrev + 1 - coin_nHeight coinPrev < COINBASE_MATURITY env
                  then False
                  else (case GetAncestor env pindexPrev (coin_nHeight coinPrev) of
                          None \<Rightarrow> False
                        | Some blockFrom \<Rightarrow>
                            if spent coinPrev then False
                            else accepted (CheckStakeKernelHash env pindexPrev nBits
                                   (nTime blockFrom) (nValue (out coinPrev)) prevout
                                   nTimeBlock 0 0 isSuperStaker))
              | Some stake \<Rightarrow>
                  if accepted (CheckStakeKernelHash env pindexPrev nBits
                         (cache_blockFromTime stake) (cache_amount stake) prevout
                         nTimeBlock 0 0 isSuperStaker)
                  then CheckKernel env pindexPrev nBits nTimeBlock prevout view
                  else False))"
  by pat_completeness auto
termination
  by (relation "measure (\<lambda>x. case x of
          Inl _ \<Rightarrow> 1
        | Inr (env, pindexPrev, nBits, nTimeBlock, prevout, view, cache) \<Rightarrow>
            (if cache prevout = None then 0 else 2))") auto

subsection \<open>CheckBlockInputPubKeyMatchesOutputPubKey\<close>

text \<open>
  \<^verbatim>\<open>block.vtx[1]\<close> is read without a test of the size of \<^verbatim>\<open>vtx\<close>: the result is
  \<open>None\<close> where the index is out of range and the C++ has no defined behaviour.
  \<^verbatim>\<open>inputAddress.type() != typeid(CKeyID)\<close> is \<open>\<not> is_CKeyID inputAddress\<close>.
\<close>

definition CheckBlockInputPubKeyMatchesOutputPubKey ::
  "Env \<Rightarrow> CBlock \<Rightarrow> CCoinsViewCache \<Rightarrow> bool option" where
  "CheckBlockInputPubKeyMatchesOutputPubKey env block view =
     (case view (prevoutStake block) of
        None \<Rightarrow> Some False
      | Some coinIn \<Rightarrow>
          if length (vtx block) < 2 then None
          else
            let coinstakeTx = vtx block ! 1 in
            if length (vout coinstakeTx) < 2 then Some False
            else
              let txout = vout coinstakeTx ! 1 in
              if scriptPubKey (out coinIn) = scriptPubKey txout then Some True
              else
                (case ExtractDestination env (scriptPubKey (out coinIn)) of
                   None \<Rightarrow> Some False
                 | Some (inputAddress, inputTxType) \<Rightarrow>
                     if inputTxType \<noteq> TX_PUBKEYHASH \<or> \<not> is_CKeyID inputAddress
                     then Some False
                     else
                       (case ExtractDestination env (scriptPubKey txout) of
                          None \<Rightarrow> Some False
                        | Some (outputAddress, outputTxType) \<Rightarrow>
                            if outputTxType \<noteq> TX_PUBKEY \<or> \<not> is_CKeyID outputAddress
                            then Some False
                            else if get_CKeyID inputAddress \<noteq> get_CKeyID outputAddress
                            then Some False
                            else Some True)))"

subsection \<open>The cache of reward scripts\<close>

record ScriptsElement =
  elem_script :: CScript
  elem_hash :: uint256

type_synonym ScriptsMap = "int \<Rightarrow> ScriptsElement option"

text \<open>
  The value that a 32-bit two's complement \<^verbatim>\<open>int\<close> holds after an addition or a
  subtraction whose exact result is \<open>x\<close>: \<open>x\<close> itself from \<open>- 2 ^ 31\<close> to \<open>2 ^ 31 - 1\<close>,
  and \<open>x\<close> wrapped around into that range otherwise.
\<close>

definition int32_wrap :: "int \<Rightarrow> int" where
  "int32_wrap x = (x + 2147483648) mod 4294967296 - 2147483648"

text \<open>
  The three heights are C \<^verbatim>\<open>int\<close>s. The bounds of the window,
  \<^verbatim>\<open>nBlockHeight - nCacheScripts\<close> and \<^verbatim>\<open>nBlockHeight + nCacheScripts\<close>, are computed in
  \<^verbatim>\<open>int\<close>: the wrap-around of the two results is written out.
  \<^verbatim>\<open>chainActive[nScriptHeight]\<close> is a null pointer where the active chain has no block at
  that height: \<open>None\<close>.
\<close>

definition NeedToEraseScriptFromCache ::
  "Env \<Rightarrow> int \<Rightarrow> int \<Rightarrow> int \<Rightarrow> ScriptsElement \<Rightarrow> bool" where
  "NeedToEraseScriptFromCache env nBlockHeight nCacheScripts nScriptHeight scriptElement =
     (if nScriptHeight < int32_wrap (nBlockHeight - nCacheScripts) \<or>
         nScriptHeight > int32_wrap (nBlockHeight + nCacheScripts)
      then True
      else
        (case chainActive env nScriptHeight of
           None \<Rightarrow> False
         | Some pblockindex \<Rightarrow>
             if blockHash pblockindex \<noteq> elem_hash scriptElement then True else False))"

text \<open>
  \<^verbatim>\<open>int nCacheScripts = consensusParams.nMPoSRewardRecipients * 1.5\<close>: the product is exact
  in a double and the conversion to \<^verbatim>\<open>int\<close> drops the fraction, towards zero.
\<close>

definition nCacheScripts_of :: "ConsensusParams \<Rightarrow> int" where
  "nCacheScripts_of consensusParams =
     (let r = nMPoSRewardRecipients consensusParams
      in if 0 \<le> r then (3 * r) div 2 else - ((3 * (- r)) div 2))"

text \<open>The loop of \<^verbatim>\<open>CleanScriptCache\<close> visits every entry of the map once.\<close>

definition CleanScriptCache :: "Env \<Rightarrow> int \<Rightarrow> ConsensusParams \<Rightarrow> ScriptsMap \<Rightarrow> ScriptsMap" where
  "CleanScriptCache env nHeight consensusParams scriptsMap =
     (let nCacheScripts = nCacheScripts_of consensusParams
      in (\<lambda>h. case scriptsMap h of
                 None \<Rightarrow> None
               | Some e \<Rightarrow>
                   if NeedToEraseScriptFromCache env nHeight nCacheScripts h e then None
                   else Some e))"

text \<open>
  \<open>script0\<close> is the caller's \<^verbatim>\<open>script\<close>, written only on a hit. The result is the
  returned flag, the script and the cleaned map.
\<close>

definition ReadFromScriptCache ::
  "Env \<Rightarrow> CScript \<Rightarrow> CBlockIndex \<Rightarrow> int \<Rightarrow> ConsensusParams \<Rightarrow> ScriptsMap \<Rightarrow>
   bool \<times> CScript \<times> ScriptsMap" where
  "ReadFromScriptCache env script0 pblockindex nHeight consensusParams scriptsMap =
     (let scriptsMap = CleanScriptCache env nHeight consensusParams scriptsMap
      in case scriptsMap nHeight of
           None \<Rightarrow> (False, script0, scriptsMap)
         | Some e \<Rightarrow>
             if elem_hash e = blockHash pblockindex then (True, elem_script e, scriptsMap)
             else (False, script0, scriptsMap))"

text \<open>\<^verbatim>\<open>std::map::insert\<close> leaves an entry that is already there as it is.\<close>

definition AddToScriptCache ::
  "Env \<Rightarrow> CScript \<Rightarrow> CBlockIndex \<Rightarrow> int \<Rightarrow> ConsensusParams \<Rightarrow> ScriptsMap \<Rightarrow> ScriptsMap" where
  "AddToScriptCache env script pblockindex nHeight consensusParams scriptsMap =
     (let scriptsMap = CleanScriptCache env nHeight consensusParams scriptsMap;
          listElement = \<lparr>elem_script = script, elem_hash = blockHash pblockindex\<rparr>
      in case scriptsMap nHeight of
           None \<Rightarrow> scriptsMap(nHeight \<mapsto> listElement)
         | Some _ \<Rightarrow> scriptsMap)"

subsection \<open>The reward recipients\<close>

text \<open>
  Modelled from the spec: the opcodes and \<^verbatim>\<open>CScript::operator<<\<close> (script/script.h) are
  not under src/. An all-zero address resolves to a burn output, the script of the one
  opcode \<^verbatim>\<open>OP_RETURN\<close>; any other address to the standard pay-to-pubkey-hash script of
  the address: \<^verbatim>\<open>OP_DUP OP_HASH160\<close>, the 20 bytes of the address behind their length,
  \<^verbatim>\<open>OP_EQUALVERIFY OP_CHECKSIG\<close>.
\<close>

definition burn_script :: CScript where
  "burn_script = [0x6a]"

definition pubkeyhash_script :: "uint160 \<Rightarrow> CScript" where
  "pubkeyhash_script stakeAddress = [0x76, 0xa9, 0x14] @ le_bytes 20 stakeAddress @ [0x88, 0xac]"

text \<open>
  The result of \<open>AddMPoSScript\<close> is the returned flag, \<^verbatim>\<open>mposScriptList\<close> and
  \<^verbatim>\<open>scriptsMap\<close> as the call leaves them.
\<close>

definition AddMPoSScript ::
  "Env \<Rightarrow> CScript list \<Rightarrow> int \<Rightarrow> ConsensusParams \<Rightarrow> ScriptsMap \<Rightarrow>
   bool \<times> CScript list \<times> ScriptsMap" where
  "AddMPoSScript env mposScriptList nHeight consensusParams scriptsMap =
     (case chainActive env nHeight of
        None \<Rightarrow> (False, mposScriptList, scriptsMap)
      | Some pblockindex \<Rightarrow>
          (case ReadFromScriptCache env [] pblockindex nHeight consensusParams scriptsMap of
             (True, script, scriptsMap) \<Rightarrow> (True, mposScriptList @ [script], scriptsMap)
           | (False, script, scriptsMap) \<Rightarrow>
               (case ReadStakeIndex env nHeight of
                  None \<Rightarrow> (False, mposScriptList, scriptsMap)
                | Some stakeAddress \<Rightarrow>
                    if isProofOfStake pblockindex then
                      let script = (if stakeAddress = 0 then burn_script
                                    else pubkeyhash_script stakeAddress)
                      in (True, mposScriptList @ [script],
                          AddToScriptCache env script pblockindex nHeight consensusParams
                            scriptsMap)
                    else if MineBlocksOnDemand env then
                      (True, mposScriptList @ [burn_script], scriptsMap)
                    else (False, mposScriptList, scriptsMap))))"

text \<open>
  The loop of \<^verbatim>\<open>GetMPoSOutputScripts\<close>, entered with the counter \<open>i\<close>, the flag \<open>ret\<close>
  and the list and cache built so far; \<open>nHeight\<close> is the height after
  \<^verbatim>\<open>nHeight -= COINBASE_MATURITY\<close>.
\<close>

function GetMPoSOutputScripts_loop ::
  "Env \<Rightarrow> ConsensusParams \<Rightarrow> int \<Rightarrow> int \<Rightarrow> bool \<Rightarrow> CScript list \<Rightarrow> ScriptsMap \<Rightarrow>
   bool \<times> CScript list \<times> ScriptsMap" where
  "GetMPoSOutputScripts_loop env consensusParams nHeight i ret mposScriptList scriptsMap =
     (if i < nMPoSRewardRecipients consensusParams - 1 \<and> ret then
        (case AddMPoSScript env mposScriptList (nHeight - i) consensusParams scriptsMap of
           (r, mposScriptList', scriptsMap') \<Rightarrow>
             GetMPoSOutputScripts_loop env consensusParams nHeight (i + 1) (ret \<and> r)
               mposScriptList' scriptsMap')
      else (ret, mposScriptList, scriptsMap))"
  by pat_completeness auto
termination
  by (relation "measure (\<lambda>(env, consensusParams, nHeight, i, ret, mposScriptList, scriptsMap).
                   nat (nMPoSRewardRecipients consensusParams - 1 - i))") auto

definition GetMPoSOutputScripts ::
  "Env \<Rightarrow> CScript list \<Rightarrow> int \<Rightarrow> ConsensusParams \<Rightarrow> ScriptsMap \<Rightarrow>
   bool \<times> CScript list \<times> ScriptsMap" where
  "GetMPoSOutputScripts env mposScriptList nHeight consensusParams scriptsMap =
     GetMPoSOutputScripts_loop env consensusParams (nHeight - COINBASE_MATURITY env) 0 True
       mposScriptList scriptsMap"

text \<open>
  The second loop of \<^verbatim>\<open>CreateMPoSOutputs\<close>: one \<^verbatim>\<open>push_back\<close> for each script of the
  list, in order.
\<close>

primrec CreateMPoSOutputs_loop :: "CTransaction \<Rightarrow> CAmount \<Rightarrow> CScript list \<Rightarrow> CTransaction" where
  "CreateMPoSOutputs_loop txNew nRewardPiece [] = txNew"
| "CreateMPoSOutputs_loop txNew nRewardPiece (script # rest) =
     CreateMPoSOutputs_loop
       (txNew\<lparr>vout := vout txNew @ [\<lparr>nValue = nRewardPiece, scriptPubKey = script\<rparr>]\<rparr>)
       nRewardPiece rest"

text \<open>
  The result is the returned flag, \<^verbatim>\<open>txNew\<close> and \<^verbatim>\<open>scriptsMap\<close> as the call leaves them.
\<close>

definition CreateMPoSOutputs ::
  "Env \<Rightarrow> CTransaction \<Rightarrow> CAmount \<Rightarrow> int \<Rightarrow> ConsensusParams \<Rightarrow> ScriptsMap \<Rightarrow>
   bool \<times> CTransaction \<times> ScriptsMap" where
  "CreateMPoSOutputs env txNew nRewardPiece nHeight consensusParams scriptsMap =
     (case GetMPoSOutputScripts env [] nHeight consensusParams scriptsMap of
        (False, mposScriptList, scriptsMap') \<Rightarrow> (False, txNew, scriptsMap')
      | (True, mposScriptList, scriptsMap') \<Rightarrow>
          (True, CreateMPoSOutputs_loop txNew nRewardPiece mposScriptList, scriptsMap'))"

subsection \<open>What a run of recipient resolutions is\<close>

text \<open>
  \<open>resolves env consensusParams m hs scripts m'\<close>: called for the heights \<open>hs\<close> in turn,
  from the cache \<open>m\<close>, \<open>AddMPoSScript\<close> returns true each time, adds the scripts \<open>scripts\<close>
  in this order, one for each height, and leaves the cache \<open>m'\<close>.
\<close>

inductive resolves ::
  "Env \<Rightarrow> ConsensusParams \<Rightarrow> ScriptsMap \<Rightarrow> int list \<Rightarrow> CScript list \<Rightarrow> ScriptsMap \<Rightarrow> bool"
  for env :: Env and consensusParams :: ConsensusParams where
  resolves_Nil: "resolves env consensusParams m [] [] m"
| resolves_Cons:
    "AddMPoSScript env [] h consensusParams m = (True, [script], m1) \<Longrightarrow>
     resolves env consensusParams m1 hs scripts m' \<Longrightarrow>
     resolves env consensusParams m (h # hs) (script # scripts) m'"

text \<open>
  The heights of the recipients of a reward at height \<open>nHeight\<close>:
  \<open>nHeight - COINBASE_MATURITY\<close>, then one less each time, \<open>nMPoSRewardRecipients - 1\<close>
  heights in all.
\<close>

definition recipient_heights :: "Env \<Rightarrow> ConsensusParams \<Rightarrow> int \<Rightarrow> int list" where
  "recipient_heights env consensusParams nHeight =
     map (\<lambda>i. nHeight - COINBASE_MATURITY env - int i)
       [0..<nat (nMPoSRewardRecipients consensusParams - 1)]"

subsection \<open>Instances of the parameters, for evaluation at concrete inputs\<close>

text \<open>A hash function that returns the digest \<open>d\<close> for every stream.\<close>

definition Hash_fixed :: "uint256 \<Rightarrow> byte list \<Rightarrow> uint256" where
  "Hash_fixed d bs = d"

text \<open>
  The compact encoding of a target: the number of bytes of the target in the top 8 bits,
  a mantissa in the low 23 bits.
\<close>

definition SetCompact_std :: "uint32 \<Rightarrow> uint256" where
  "SetCompact_std nCompact =
     (let nSize = unat (drop_bit 24 nCompact);
          nWord = nCompact AND 0x007fffff
      in if nSize \<le> 3 then ucast (drop_bit (8 * (3 - nSize)) nWord)
         else push_bit (8 * (nSize - 3)) (ucast nWord))"

text \<open>
  A chain of the blocks 0 to 100, all proof-of-stake, sixteen seconds apart; the block at
  height \<open>h\<close> has the hash \<open>h + 1\<close>.
\<close>

definition test_block :: "int \<Rightarrow> CBlockIndex" where
  "test_block h =
     \<lparr>index_nHeight = h, nTime = word_of_int (1000 + 16 * h), nStakeModifier = 0,
      blockHash = word_of_int (h + 1), isProofOfStake = True\<rparr>"

definition test_chain :: "int \<Rightarrow> CBlockIndex option" where
  "test_chain h = (if 0 \<le> h \<and> h \<le> 100 then Some (test_block h) else None)"

definition test_GetAncestor :: "CBlockIndex \<Rightarrow> int \<Rightarrow> CBlockIndex option" where
  "test_GetAncestor pindexPrev h =
     (if 0 \<le> h \<and> h \<le> index_nHeight pindexPrev then test_chain h else None)"

definition test_prevout :: COutPoint where
  "test_prevout = \<lparr>op_hash = 0xAB, op_n = 0\<rparr>"

definition test_p2pkh :: CScript where
  "test_p2pkh = pubkeyhash_script 0x11"

definition test_p2pk :: CScript where
  "test_p2pk = [0x21, 0x02, 0x11, 0xac]"

definition test_coin :: Coin where
  "test_coin = \<lparr>out = \<lparr>nValue = 1, scriptPubKey = test_p2pkh\<rparr>, coin_nHeight = 90,
                 spent = False\<rparr>"

definition test_spent_lookup :: "CBlockIndex \<Rightarrow> COutPoint \<Rightarrow> Coin option" where
  "test_spent_lookup pindexPrev prevout = (if prevout = test_prevout then Some test_coin else None)"

definition test_stake_index :: "int \<Rightarrow> uint160 option" where
  "test_stake_index h = (if h = 89 then Some 0 else if h < 80 then None else Some 0x11)"

definition test_ExtractDestination :: "CScript \<Rightarrow> (CTxDestination \<times> txnouttype) option" where
  "test_ExtractDestination script =
     (if script = test_p2pkh then Some (CKeyID 0x11, TX_PUBKEYHASH)
      else if script = test_p2pk then Some (CKeyID 0x11, TX_PUBKEY)
      else None)"

definition test_env :: Env where
  "test_env =
     \<lparr>Hash = Hash_fixed 5, SetCompact = SetCompact_std, GetAncestor = test_GetAncestor,
      GetSpentCoinFromMainChain = test_spent_lookup, superStakers = [test_p2pk],
      COINBASE_MATURITY = 10, chainActive = test_chain, ReadStakeIndex = test_stake_index,
      MineBlocksOnDemand = False, ExtractDestination = test_ExtractDestination\<rparr>"

text \<open>A reward split among three recipients, a coinstake and a block that holds it.\<close>

definition test_params :: ConsensusParams where
  "test_params = \<lparr>nMPoSRewardRecipients = 3\<rparr>"

definition test_tx :: CTransaction where
  "test_tx =
     \<lparr>vin = [test_prevout],
      vout = [\<lparr>nValue = 0, scriptPubKey = []\<rparr>, \<lparr>nValue = 2, scriptPubKey = test_p2pk\<rparr>]\<rparr>"

definition test_cblock :: "CScript \<Rightarrow> CBlock" where
  "test_cblock script =
     \<lparr>prevoutStake = test_prevout,
      vtx = [\<lparr>vin = [], vout = []\<rparr>,
             \<lparr>vin = [test_prevout],
              vout = [\<lparr>nValue = 0, scriptPubKey = []\<rparr>,
                      \<lparr>nValue = 2, scriptPubKey = script\<rparr>]\<rparr>]\<rparr>"

section \<open>Properties\<close>

subsection \<open>The instances\<close>

lemma test_env_simps:
  "Hash test_env = Hash_fixed 5" "SetCompact test_env = SetCompact_std"
  "GetAncestor test_env = test_GetAncestor"
  "GetSpentCoinFromMainChain test_env = test_spent_lookup"
  "superStakers test_env = [test_p2pk]" "COINBASE_MATURITY test_env = 10"
  "chainActive test_env = test_chain" "ReadStakeIndex test_env = test_stake_index"
  "MineBlocksOnDemand test_env = False" "ExtractDestination test_env = test_ExtractDestination"
  by (simp_all add: test_env_def)

lemma SetCompact_std_small: "SetCompact_std 0x03000001 = 1"
  by (simp add: SetCompact_std_def Let_def drop_bit_eq_div)

lemma SetCompact_std_limit: "SetCompact_std 0x1d00ffff = 0xffff * 2 ^ 208"
  by (simp add: SetCompact_std_def Let_def drop_bit_eq_div push_bit_eq_mult)

subsection \<open>Serialization is injective\<close>

lemma le_bytes_nth: "i < k \<Longrightarrow> le_bytes k w ! i = ucast (drop_bit (8 * i) w)"
  by (simp add: le_bytes_def)

lemma bit_le_bytes:
  fixes w :: "'a::len word"
  assumes "n < 8 * k"
  shows "bit (le_bytes k w ! (n div 8)) (n mod 8) = bit w n"
proof -
  have i: "n div 8 < k"
    using assms by (simp add: less_mult_imp_div_less mult.commute)
  have "bit (le_bytes k w ! (n div 8)) (n mod 8) =
        bit (ucast (drop_bit (8 * (n div 8)) w) :: byte) (n mod 8)"
    using i by (simp add: le_bytes_nth)
  also have "\<dots> = bit (drop_bit (8 * (n div 8)) w) (n mod 8)"
    by (simp add: bit_ucast_iff)
  also have "\<dots> = bit w n"
    by (simp add: bit_drop_bit_eq)
  finally show ?thesis .
qed

lemma le_bytes_inj:
  fixes a b :: "'a::len word"
  assumes "LENGTH('a) \<le> 8 * k" and "le_bytes k a = le_bytes k b"
  shows "a = b"
proof (rule bit_word_eqI)
  fix n
  assume "n < LENGTH('a)"
  then have "n < 8 * k"
    using assms(1) by simp
  then show "bit a n = bit b n"
    using bit_le_bytes [of n k a] bit_le_bytes [of n k b] assms(2) by simp
qed

lemma ser_uint256_inj: "ser_uint256 a = ser_uint256 b \<Longrightarrow> a = b"
  unfolding ser_uint256_def by (rule le_bytes_inj [of 32]) simp_all

subsection \<open>ComputeStakeModifier\<close>

text \<open>
  Claim C8. \<open>ComputeStakeModifier\<close> is a total function of its arguments. For an absent
  \<^verbatim>\<open>pindexPrev\<close> it returns the all-zero value. For a present one it returns the hash of
  the serialization of the kernel hash followed by the stake modifier stored in
  \<^verbatim>\<open>pindexPrev\<close>, and two calls that differ only in the kernel hash give the hash
  function different streams.
\<close>

theorem ComputeStakeModifier_spec:
  "ComputeStakeModifier env None kernelHash = 0 \<and>
   ComputeStakeModifier env (Some p) kernelHash = Hash env (StakeModifierStream p kernelHash) \<and>
   StakeModifierStream p kernelHash = ser_uint256 kernelHash @ ser_uint256 (nStakeModifier p) \<and>
   (k1 \<noteq> k2 \<longrightarrow> StakeModifierStream p k1 \<noteq> StakeModifierStream p k2)"
  by (auto simp: ComputeStakeModifier_def StakeModifierStream_def dest: ser_uint256_inj)

theorem ComputeStakeModifier_spec_witness:
  "(1 :: uint256) \<noteq> 2 \<and>
   StakeModifierStream (test_block 0) 1 \<noteq> StakeModifierStream (test_block 0) 2 \<and>
   ComputeStakeModifier test_env None 1 = 0 \<and>
   ComputeStakeModifier test_env (Some (test_block 0)) 1 = 5"
proof -
  note spec = ComputeStakeModifier_spec [of test_env "1" "test_block 0" "1" "2"]
  have ne: "(1 :: uint256) \<noteq> 2"
    by simp
  have streams: "StakeModifierStream (test_block 0) 1 \<noteq> StakeModifierStream (test_block 0) 2"
    using spec ne by blast
  have zero: "ComputeStakeModifier test_env None 1 = 0"
    using spec by blast
  have "ComputeStakeModifier test_env (Some (test_block 0)) 1 =
        Hash test_env (StakeModifierStream (test_block 0) 1)"
    using spec by blast
  then have five: "ComputeStakeModifier test_env (Some (test_block 0)) 1 = 5"
    by (simp add: test_env_simps Hash_fixed_def)
  show ?thesis
    using ne streams zero five by blast
qed

subsection \<open>CheckStakeKernelHash\<close>

text \<open>
  Claim C1, as the spec states it, fails on the code. A privileged staker whose candidate
  time is less than 64 seconds after the time of \<^verbatim>\<open>pindexPrev\<close> is rejected when the
  proof hash exceeds the weighted target (the comparison is made), and a privileged staker
  at 64 seconds or more is accepted although the proof hash exceeds the target (the
  comparison is skipped). Here the block time is 1000, the proof hash 5 and the target 1.
\<close>

theorem CheckStakeKernelHash_window_counterexample:
  "(900::uint32) \<le> 1010 \<and> (1010::uint32) < nTime (test_block 0) + 64 \<and>
   \<not> accepted (CheckStakeKernelHash test_env (test_block 0) 0x03000001
        900 1 test_prevout 1010 0 0 True) \<and>
   (900::uint32) \<le> 2000 \<and> \<not> (2000::uint32) < nTime (test_block 0) + 64 \<and>
   accepted (CheckStakeKernelHash test_env (test_block 0) 0x03000001
        900 1 test_prevout 2000 0 0 True) \<and>
   \<not> Hash test_env (KernelHashStream (test_block 0) 900 test_prevout 2000)
       \<le> SetCompact test_env 0x03000001 * ucast (1 :: CAmount)"
  by (simp add: CheckStakeKernelHash_def test_env_simps SetCompact_std_small Hash_fixed_def
      test_block_def Let_def word_le_nat_alt)

text \<open>
  Claim C1, amended. \<open>CheckStakeKernelHash\<close> accepts exactly when the candidate time is
  not before the origin block time and either the staker is privileged and the candidate
  time is not less than the time of \<^verbatim>\<open>pindexPrev\<close> plus 64 (then the comparison is
  skipped), or the proof hash is at most the weighted target. The sum is that of unsigned
  32-bit integers.
\<close>

theorem CheckStakeKernelHash_accepts_iff:
  "accepted (CheckStakeKernelHash env pindexPrev nBits blockFromTime prevoutValue prevout
      nTimeBlock h0 t0 isSuperStaker) =
   (blockFromTime \<le> nTimeBlock \<and>
    (isSuperStaker \<and> nTime pindexPrev + 64 \<le> nTimeBlock \<or>
     Hash env (KernelHashStream pindexPrev blockFromTime prevout nTimeBlock)
       \<le> SetCompact env nBits * ucast prevoutValue))"
  by (auto simp: CheckStakeKernelHash_def Let_def not_less)

theorem CheckStakeKernelHash_accepts_iff_witness:
  "accepted (CheckStakeKernelHash test_env (test_block 0) 0x03000001 900 1 test_prevout
      2000 0 0 True) \<and>
   \<not> accepted (CheckStakeKernelHash test_env (test_block 0) 0x03000001 900 1 test_prevout
      1010 0 0 True) \<and>
   \<not> accepted (CheckStakeKernelHash test_env (test_block 0) 0x03000001 900 1 test_prevout
      2000 0 0 False) \<and>
   accepted (CheckStakeKernelHash test_env (test_block 0) 0x1d00ffff 900 1 test_prevout
      1010 0 0 False)"
  using CheckStakeKernelHash_accepts_iff [of test_env "test_block 0" "0x03000001" "900" "1"
      test_prevout "2000" "0" "0" True]
    CheckStakeKernelHash_accepts_iff [of test_env "test_block 0" "0x03000001" "900" "1"
      test_prevout "1010" "0" "0" True]
    CheckStakeKernelHash_accepts_iff [of test_env "test_block 0" "0x03000001" "900" "1"
      test_prevout "2000" "0" "0" False]
    CheckStakeKernelHash_accepts_iff [of test_env "test_block 0" "0x1d00ffff" "900" "1"
      test_prevout "1010" "0" "0" False]
  by (simp add: test_env_simps SetCompact_std_small SetCompact_std_limit Hash_fixed_def
      test_block_def word_le_nat_alt)

text \<open>
  Claim C3, as the spec states it, fails on the code. With a candidate time before the
  origin block time the call returns before anything is computed: the two reference
  parameters keep the values 7 and 9 that the caller had in them, which are neither the
  proof hash 5 nor the weighted target 1.
\<close>

theorem CheckStakeKernelHash_outputs_counterexample:
  "CheckStakeKernelHash test_env (test_block 0) 0x03000001 1000 1 test_prevout 900 7 9 False =
     \<lparr>accepted = False, hashProofOfStake = 7, targetProofOfStake = 9\<rparr> \<and>
   Hash test_env (KernelHashStream (test_block 0) 1000 test_prevout 900) \<noteq> 7 \<and>
   SetCompact test_env 0x03000001 * ucast (1 :: CAmount) \<noteq> 9"
  by (simp add: CheckStakeKernelHash_def test_env_simps SetCompact_std_small Hash_fixed_def)

text \<open>
  Claim C3, amended. When the candidate time is not before the origin block time,
  \<open>CheckStakeKernelHash\<close> leaves the computed proof hash and the weighted target in its two
  reference parameters, whether it accepts or rejects. When the candidate time is before
  the origin block time it rejects and leaves both parameters as they were.
\<close>

theorem CheckStakeKernelHash_outputs:
  "(blockFromTime \<le> nTimeBlock \<longrightarrow>
      hashProofOfStake (CheckStakeKernelHash env pindexPrev nBits blockFromTime
        prevoutValue prevout nTimeBlock h0 t0 isSuperStaker) =
        Hash env (KernelHashStream pindexPrev blockFromTime prevout nTimeBlock) \<and>
      targetProofOfStake (CheckStakeKernelHash env pindexPrev nBits blockFromTime
        prevoutValue prevout nTimeBlock h0 t0 isSuperStaker) =
        SetCompact env nBits * ucast prevoutValue) \<and>
   (nTimeBlock < blockFromTime \<longrightarrow>
      CheckStakeKernelHash env pindexPrev nBits blockFromTime
        prevoutValue prevout nTimeBlock h0 t0 isSuperStaker =
      \<lparr>accepted = False, hashProofOfStake = h0, targetProofOfStake = t0\<rparr>)"
  by (auto simp: CheckStakeKernelHash_def Let_def not_less)

theorem CheckStakeKernelHash_outputs_witness:
  "(900::uint32) \<le> 1010 \<and>
   hashProofOfStake (CheckStakeKernelHash test_env (test_block 0) 0x03000001 900 1
     test_prevout 1010 7 9 False) = 5 \<and>
   targetProofOfStake (CheckStakeKernelHash test_env (test_block 0) 0x03000001 900 1
     test_prevout 1010 7 9 False) = 1 \<and>
   (900::uint32) < 1000 \<and>
   CheckStakeKernelHash test_env (test_block 0) 0x03000001 1000 1 test_prevout 900 7 9 False =
     \<lparr>accepted = False, hashProofOfStake = 7, targetProofOfStake = 9\<rparr>"
proof -
  have a: "(900::uint32) \<le> 1010" and b: "(900::uint32) < 1000"
    by simp_all
  show ?thesis
    using a b
      CheckStakeKernelHash_outputs [of "900" "1010" test_env "test_block 0" "0x03000001" "1"
        test_prevout "7" "9" False]
      CheckStakeKernelHash_outputs [of "1000" "900" test_env "test_block 0" "0x03000001" "1"
        test_prevout "7" "9" False]
    by (simp add: test_env_simps SetCompact_std_small Hash_fixed_def)
qed

text \<open>The stake value as a 256-bit number, and its double.\<close>

lemma unat_ucast_amount: "unat (ucast (v :: CAmount) :: uint256) = unat v"
proof -
  have "unat v < 2 ^ 64"
    using unsigned_less [of v, where ?'a = nat] by simp
  then have "unat v < 2 ^ 256"
    by (rule less_le_trans) simp
  then show ?thesis
    by (simp add: unsigned_ucast_eq take_bit_eq_mod)
qed

lemma ucast_double:
  assumes "prevoutValue < (2 ^ 63 :: CAmount)"
  shows "(ucast (2 * prevoutValue) :: uint256) = 2 * ucast prevoutValue"
proof -
  have small: "unat prevoutValue < 2 ^ 63"
    using assms by (simp add: word_less_nat_alt)
  have "unat (2 * prevoutValue) = 2 * unat prevoutValue"
    using small by (simp add: unat_word_ariths)
  then have "unat (ucast (2 * prevoutValue) :: uint256) = 2 * unat prevoutValue"
    by (simp add: unat_ucast_amount)
  moreover have "unat (2 * (ucast prevoutValue :: uint256)) = 2 * unat prevoutValue"
    using small by (simp add: unat_word_ariths unat_ucast_amount)
  ultimately show ?thesis
    by (simp add: word_unat_eq_iff)
qed

text \<open>
  Where the product of the target and the doubled stake value fits into 256 bits, a
  doubled stake keeps an accept.
\<close>

lemma CheckStakeKernelHash_doubling_no_overflow:
  assumes fits: "unat (SetCompact env nBits) * (2 * unat prevoutValue) < 2 ^ 256"
    and small: "prevoutValue < 2 ^ 63"
    and acc: "accepted (CheckStakeKernelHash env pindexPrev nBits blockFromTime prevoutValue
           prevout nTimeBlock h0 t0 isSuperStaker)"
  shows "accepted (CheckStakeKernelHash env pindexPrev nBits blockFromTime
           (2 * prevoutValue) prevout nTimeBlock h0 t0 isSuperStaker)"
proof -
  let ?T = "SetCompact env nBits"
  let ?v = "ucast prevoutValue :: uint256"
  have two: "unat (2 * ?v) = 2 * unat prevoutValue"
  proof -
    have "2 * unat prevoutValue \<le> unat ?T * (2 * unat prevoutValue) \<or> unat ?T = 0"
      by (cases "unat ?T") simp_all
    moreover have "2 * unat prevoutValue < 2 ^ 64"
      using small by (simp add: word_less_nat_alt)
    then have "2 * unat prevoutValue < 2 ^ 256"
      by (rule less_le_trans) simp
    ultimately show ?thesis
      by (simp add: unat_word_ariths unat_ucast_amount)
  qed
  have one: "unat (?T * ?v) = unat ?T * unat prevoutValue"
  proof -
    have "unat ?T * unat prevoutValue \<le> unat ?T * (2 * unat prevoutValue)"
      by simp
    from this fits have "unat ?T * unat prevoutValue < 2 ^ 256"
      by (rule le_less_trans)
    then show ?thesis
      by (simp add: unat_word_ariths unat_ucast_amount)
  qed
  have dbl: "unat (?T * (2 * ?v)) = unat ?T * (2 * unat prevoutValue)"
    using fits two by (simp add: unat_word_ariths(2) [of ?T "2 * ?v"])
  have "?T * ?v \<le> ?T * ucast (2 * prevoutValue)"
    unfolding ucast_double [OF small] word_le_nat_alt one dbl by simp
  with acc show ?thesis
    by (auto simp: CheckStakeKernelHash_def Let_def not_less split: if_splits)
qed

text \<open>
  Claim C5. The weighted target is the product of the decompressed bits and the stake
  value in 256-bit arithmetic, and the product wraps around. When the weighted target for
  the stake value \<open>v\<close> is \<open>2 ^ 255\<close>, the weighted target for \<open>2 * v\<close> is 0: every
  candidate that is not privileged and whose proof hash is in the range from 1 to
  \<open>2 ^ 255\<close> is accepted with the stake \<open>v\<close> and rejected with the doubled stake.
\<close>

theorem CheckStakeKernelHash_doubling_overflow:
  assumes "blockFromTime \<le> nTimeBlock" and "\<not> isSuperStaker"
    and "SetCompact env nBits * ucast prevoutValue = 2 ^ 255"
    and "prevoutValue < 2 ^ 63"
    and "0 < Hash env (KernelHashStream pindexPrev blockFromTime prevout nTimeBlock)"
    and "Hash env (KernelHashStream pindexPrev blockFromTime prevout nTimeBlock) \<le> 2 ^ 255"
  shows "accepted (CheckStakeKernelHash env pindexPrev nBits blockFromTime prevoutValue
           prevout nTimeBlock h0 t0 isSuperStaker) \<and>
         \<not> accepted (CheckStakeKernelHash env pindexPrev nBits blockFromTime
           (2 * prevoutValue) prevout nTimeBlock h0 t0 isSuperStaker)"
proof -
  have "SetCompact env nBits * ucast (2 * prevoutValue) = (0 :: uint256)"
    using assms(3) by (simp add: ucast_double [OF assms(4)] mult.left_commute)
  then show ?thesis
    using assms by (simp add: CheckStakeKernelHash_def Let_def not_less word_greater_zero_iff)
qed

text \<open>
  The bits \<open>0x1d00ffff\<close> stand for the target \<open>0xffff * 2 ^ 208\<close>; with the stake value
  \<open>2 ^ 47\<close> the weighted target is \<open>2 ^ 255\<close>.
\<close>

theorem CheckStakeKernelHash_doubling_overflow_witness:
  "accepted (CheckStakeKernelHash test_env (test_block 0) 0x1d00ffff
        900 0x800000000000 test_prevout 1010 0 0 False) \<and>
   \<not> accepted (CheckStakeKernelHash test_env (test_block 0) 0x1d00ffff
        900 (2 * 0x800000000000) test_prevout 1010 0 0 False)"
proof -
  have "(900::uint32) \<le> 1010" and "\<not> False"
    and "SetCompact test_env 0x1d00ffff * ucast (0x800000000000 :: CAmount) = 2 ^ 255"
    and "(0x800000000000 :: CAmount) < 2 ^ 63"
    and "0 < Hash test_env (KernelHashStream (test_block 0) 900 test_prevout 1010)"
    and "Hash test_env (KernelHashStream (test_block 0) 900 test_prevout 1010) \<le> 2 ^ 255"
    by (simp_all add: test_env_simps SetCompact_std_limit Hash_fixed_def)
  then show ?thesis
    by (rule CheckStakeKernelHash_doubling_overflow)
qed

subsection \<open>CheckKernel\<close>

declare CheckKernel.simps [simp del] CheckKernel_cache.simps [simp del]

text \<open>The coin that both overloads work on: from the view, else from the main chain.\<close>

lemma CheckKernel_cache_no_coin:
  assumes "view prevout = None" and "GetSpentCoinFromMainChain env pindexPrev prevout = None"
  shows "\<not> CheckKernel_cache env pindexPrev nBits nTimeBlock prevout view cache"
  using assms
  by (simp add:
      CheckKernel_cache.simps [of env pindexPrev nBits nTimeBlock prevout view cache])

lemma CheckKernel_cache_coin:
  assumes "view prevout = Some coinPrev \<or>
           view prevout = None \<and>
           GetSpentCoinFromMainChain env pindexPrev prevout = Some coinPrev"
  shows "CheckKernel_cache env pindexPrev nBits nTimeBlock prevout view cache =
         (let isSuperStaker = (superStakers env \<noteq> [] \<and>
                               scriptPubKey (out coinPrev) \<in> set (superStakers env))
          in case cache prevout of
               None \<Rightarrow>
                 \<not> (\<not> isSuperStaker \<and>
                    index_nHeight pindexPrev + 1 - coin_nHeight coinPrev
                      < COINBASE_MATURITY env) \<and>
                 (case GetAncestor env pindexPrev (coin_nHeight coinPrev) of
                    None \<Rightarrow> False
                  | Some blockFrom \<Rightarrow>
                      \<not> spent coinPrev \<and>
                      accepted (CheckStakeKernelHash env pindexPrev nBits (nTime blockFrom)
                        (nValue (out coinPrev)) prevout nTimeBlock 0 0 isSuperStaker))
             | Some stake \<Rightarrow>
                 accepted (CheckStakeKernelHash env pindexPrev nBits
                   (cache_blockFromTime stake) (cache_amount stake) prevout nTimeBlock 0 0
                   isSuperStaker) \<and>
                 CheckKernel env pindexPrev nBits nTimeBlock prevout view)"
proof -
  have lookup: "(case view prevout of Some c \<Rightarrow> Some c
                 | None \<Rightarrow> GetSpentCoinFromMainChain env pindexPrev prevout) = Some coinPrev"
    using assms by auto
  show ?thesis
  proof (cases "cache prevout")
    case None
    show ?thesis
    proof (cases "GetAncestor env pindexPrev (coin_nHeight coinPrev)")
      case None
      with \<open>cache prevout = None\<close> lookup show ?thesis
        by (auto simp:
            CheckKernel_cache.simps [of env pindexPrev nBits nTimeBlock prevout view cache]
            Let_def)
    next
      case (Some blockFrom)
      with \<open>cache prevout = None\<close> lookup show ?thesis
        by (auto simp:
            CheckKernel_cache.simps [of env pindexPrev nBits nTimeBlock prevout view cache]
            Let_def)
    qed
  next
    case (Some stake)
    with lookup show ?thesis
      by (simp add:
          CheckKernel_cache.simps [of env pindexPrev nBits nTimeBlock prevout view cache]
          Let_def)
  qed
qed

lemma CheckKernel_cache_miss:
  assumes "cache prevout = None"
  shows "CheckKernel_cache env pindexPrev nBits nTimeBlock prevout view cache =
         CheckKernel env pindexPrev nBits nTimeBlock prevout view"
proof (cases "view prevout")
  case None
  show ?thesis
  proof (cases "GetSpentCoinFromMainChain env pindexPrev prevout")
    case None
    with \<open>view prevout = None\<close> show ?thesis
      by (simp add: CheckKernel.simps CheckKernel_cache_no_coin)
  next
    case (Some coinPrev)
    with \<open>view prevout = None\<close> assms show ?thesis
      by (simp add: CheckKernel.simps CheckKernel_cache_coin [of view prevout coinPrev])
  qed
next
  case (Some coinPrev)
  with assms show ?thesis
    by (simp add: CheckKernel.simps CheckKernel_cache_coin [of view prevout coinPrev])
qed

text \<open>
  Claim C2. Whatever the stake cache holds, when the overload of \<open>CheckKernel\<close> that
  takes a cache returns true, the overload without a cache returns true on the same
  inputs. A stale entry can make the cached overload reject, never accept, where the
  uncached one rejects.
\<close>

theorem CheckKernel_cache_sound:
  "CheckKernel_cache env pindexPrev nBits nTimeBlock prevout view cache \<Longrightarrow>
   CheckKernel env pindexPrev nBits nTimeBlock prevout view"
proof (cases "cache prevout")
  case None
  assume "CheckKernel_cache env pindexPrev nBits nTimeBlock prevout view cache"
  then show ?thesis
    using None by (simp add: CheckKernel_cache_miss)
next
  case (Some stake)
  assume hit: "CheckKernel_cache env pindexPrev nBits nTimeBlock prevout view cache"
  show ?thesis
  proof (cases "view prevout")
    case None
    show ?thesis
    proof (cases "GetSpentCoinFromMainChain env pindexPrev prevout")
      case None
      with \<open>view prevout = None\<close> hit show ?thesis
        by (simp add: CheckKernel_cache_no_coin)
    next
      case (Some coinPrev)
      with \<open>view prevout = None\<close> \<open>cache prevout = Some stake\<close> hit show ?thesis
        by (simp add: CheckKernel_cache_coin [of view prevout coinPrev])
    qed
  next
    case (Some coinPrev)
    with \<open>cache prevout = Some stake\<close> hit show ?thesis
      by (simp add: CheckKernel_cache_coin [of view prevout coinPrev])
  qed
qed

theorem CheckKernel_cache_sound_witness:
  "CheckKernel_cache test_env (test_block 100) 0x1d00ffff 2700 test_prevout
     [test_prevout \<mapsto> test_coin]
     [test_prevout \<mapsto> \<lparr>cache_blockFromTime = 2000, cache_amount = 1\<rparr>] \<and>
   CheckKernel test_env (test_block 100) 0x1d00ffff 2700 test_prevout
     [test_prevout \<mapsto> test_coin]"
proof -
  have "CheckKernel_cache test_env (test_block 100) 0x1d00ffff 2700 test_prevout
     [test_prevout \<mapsto> test_coin]
     [test_prevout \<mapsto> \<lparr>cache_blockFromTime = 2000, cache_amount = 1\<rparr>]"
    by (simp add: CheckKernel.simps CheckKernel_cache.simps CheckStakeKernelHash_def
        test_env_simps test_coin_def test_GetAncestor_def test_chain_def test_block_def
        test_p2pk_def test_p2pkh_def pubkeyhash_script_def SetCompact_std_limit
        Hash_fixed_def Let_def)
  then show ?thesis
    using CheckKernel_cache_sound by blast
qed

text \<open>
  Claim C10. When the referenced output is absent from the view, both overloads of
  \<open>CheckKernel\<close> look the coin up with \<open>GetSpentCoinFromMainChain\<close>, and they return
  false when that lookup misses too. When it finds a coin the check goes on with
  the recorded value, script and height of the spent output: the overload without a cache
  returns true exactly when the script is privileged or the coin is mature at its
  recorded height, the ancestor at that height is found, the coin is not marked spent, and
  \<open>CheckStakeKernelHash\<close> accepts with the time of that ancestor and the recorded value;
  the overload with a cache returns the same on a miss and, on a hit, that and the
  tentative check. Both return what they return on the view extended with the coin.
\<close>

theorem CheckKernel_spent_coin_fallback:
  assumes "view prevout = None"
  shows "(GetSpentCoinFromMainChain env pindexPrev prevout = None \<longrightarrow>
            \<not> CheckKernel env pindexPrev nBits nTimeBlock prevout view \<and>
            \<not> CheckKernel_cache env pindexPrev nBits nTimeBlock prevout view cache) \<and>
         (\<forall>coinPrev. GetSpentCoinFromMainChain env pindexPrev prevout = Some coinPrev \<longrightarrow>
            CheckKernel env pindexPrev nBits nTimeBlock prevout view =
              (let isSuperStaker = (superStakers env \<noteq> [] \<and>
                                    scriptPubKey (out coinPrev) \<in> set (superStakers env))
               in \<not> (\<not> isSuperStaker \<and>
                      index_nHeight pindexPrev + 1 - coin_nHeight coinPrev
                        < COINBASE_MATURITY env) \<and>
                  (case GetAncestor env pindexPrev (coin_nHeight coinPrev) of
                     None \<Rightarrow> False
                   | Some blockFrom \<Rightarrow>
                       \<not> spent coinPrev \<and>
                       accepted (CheckStakeKernelHash env pindexPrev nBits (nTime blockFrom)
                         (nValue (out coinPrev)) prevout nTimeBlock 0 0 isSuperStaker))) \<and>
            CheckKernel_cache env pindexPrev nBits nTimeBlock prevout view cache =
              (case cache prevout of
                 None \<Rightarrow> CheckKernel env pindexPrev nBits nTimeBlock prevout view
               | Some stake \<Rightarrow>
                   accepted (CheckStakeKernelHash env pindexPrev nBits
                     (cache_blockFromTime stake) (cache_amount stake) prevout nTimeBlock 0 0
                     (superStakers env \<noteq> [] \<and>
                      scriptPubKey (out coinPrev) \<in> set (superStakers env))) \<and>
                   CheckKernel env pindexPrev nBits nTimeBlock prevout view) \<and>
            CheckKernel env pindexPrev nBits nTimeBlock prevout view =
            CheckKernel env pindexPrev nBits nTimeBlock prevout (view(prevout \<mapsto> coinPrev)) \<and>
            CheckKernel_cache env pindexPrev nBits nTimeBlock prevout view cache =
            CheckKernel_cache env pindexPrev nBits nTimeBlock prevout
              (view(prevout \<mapsto> coinPrev)) cache)"
proof (intro conjI impI allI)
  assume "GetSpentCoinFromMainChain env pindexPrev prevout = None"
  with assms show "\<not> CheckKernel env pindexPrev nBits nTimeBlock prevout view"
    by (simp add: CheckKernel.simps CheckKernel_cache_no_coin)
next
  assume "GetSpentCoinFromMainChain env pindexPrev prevout = None"
  with assms show "\<not> CheckKernel_cache env pindexPrev nBits nTimeBlock prevout view cache"
    by (simp add: CheckKernel_cache_no_coin)
next
  fix coinPrev
  assume c: "GetSpentCoinFromMainChain env pindexPrev prevout = Some coinPrev"
  with assms show "CheckKernel env pindexPrev nBits nTimeBlock prevout view =
      (let isSuperStaker = (superStakers env \<noteq> [] \<and>
                            scriptPubKey (out coinPrev) \<in> set (superStakers env))
       in \<not> (\<not> isSuperStaker \<and>
              index_nHeight pindexPrev + 1 - coin_nHeight coinPrev
                < COINBASE_MATURITY env) \<and>
          (case GetAncestor env pindexPrev (coin_nHeight coinPrev) of
             None \<Rightarrow> False
           | Some blockFrom \<Rightarrow>
               \<not> spent coinPrev \<and>
               accepted (CheckStakeKernelHash env pindexPrev nBits (nTime blockFrom)
                 (nValue (out coinPrev)) prevout nTimeBlock 0 0 isSuperStaker)))"
    by (simp add: CheckKernel.simps CheckKernel_cache_coin [of view prevout coinPrev])
next
  fix coinPrev
  assume c: "GetSpentCoinFromMainChain env pindexPrev prevout = Some coinPrev"
  show "CheckKernel_cache env pindexPrev nBits nTimeBlock prevout view cache =
      (case cache prevout of
         None \<Rightarrow> CheckKernel env pindexPrev nBits nTimeBlock prevout view
       | Some stake \<Rightarrow>
           accepted (CheckStakeKernelHash env pindexPrev nBits
             (cache_blockFromTime stake) (cache_amount stake) prevout nTimeBlock 0 0
             (superStakers env \<noteq> [] \<and>
              scriptPubKey (out coinPrev) \<in> set (superStakers env))) \<and>
           CheckKernel env pindexPrev nBits nTimeBlock prevout view)"
  proof (cases "cache prevout")
    case None
    then show ?thesis
      by (simp add: CheckKernel_cache_miss)
  next
    case (Some stake)
    with assms c show ?thesis
      by (simp add: CheckKernel_cache_coin [of view prevout coinPrev])
  qed
next
  fix coinPrev
  assume c: "GetSpentCoinFromMainChain env pindexPrev prevout = Some coinPrev"
  with assms have u: "CheckKernel env pindexPrev nBits nTimeBlock prevout view =
      CheckKernel env pindexPrev nBits nTimeBlock prevout (view(prevout \<mapsto> coinPrev))"
    by (simp add: CheckKernel.simps
        CheckKernel_cache_coin [of view prevout coinPrev]
        CheckKernel_cache_coin [of "view(prevout \<mapsto> coinPrev)" prevout coinPrev])
  then show "CheckKernel env pindexPrev nBits nTimeBlock prevout view =
      CheckKernel env pindexPrev nBits nTimeBlock prevout (view(prevout \<mapsto> coinPrev))" .
  from assms c u show "CheckKernel_cache env pindexPrev nBits nTimeBlock prevout view cache =
      CheckKernel_cache env pindexPrev nBits nTimeBlock prevout (view(prevout \<mapsto> coinPrev))
        cache"
    by (simp add:
        CheckKernel_cache_coin [of view prevout coinPrev]
        CheckKernel_cache_coin [of "view(prevout \<mapsto> coinPrev)" prevout coinPrev]
        cong: option.case_cong)
qed

text \<open>
  The output is in no view and the historical lookup finds the coin of value 1 confirmed
  at the height 90. Behind the block 100 the candidate is accepted with the bits
  \<open>0x1d00ffff\<close>, and rejected with the bits \<open>0x03000001\<close>, for which the recorded value
  gives the weighted target 1 below the proof hash 5. Behind the block 95 the coin is not
  mature at its recorded height and the candidate is rejected. An output that the
  historical lookup does not find is rejected.
\<close>

theorem CheckKernel_spent_coin_fallback_witness:
  "Map.empty test_prevout = (None :: Coin option) \<and>
   GetSpentCoinFromMainChain test_env (test_block 100) test_prevout = Some test_coin \<and>
   CheckKernel test_env (test_block 100) 0x1d00ffff 2700 test_prevout Map.empty \<and>
   CheckKernel_cache test_env (test_block 100) 0x1d00ffff 2700 test_prevout Map.empty
     [test_prevout \<mapsto> \<lparr>cache_blockFromTime = 2000, cache_amount = 1\<rparr>] \<and>
   CheckKernel test_env (test_block 100) 0x1d00ffff 2700 test_prevout
     [test_prevout \<mapsto> test_coin] \<and>
   \<not> CheckKernel test_env (test_block 100) 0x03000001 2700 test_prevout Map.empty \<and>
   \<not> CheckKernel test_env (test_block 95) 0x1d00ffff 2700 test_prevout Map.empty \<and>
   GetSpentCoinFromMainChain test_env (test_block 100) (test_prevout\<lparr>op_n := 1\<rparr>) = None \<and>
   \<not> CheckKernel test_env (test_block 100) 0x1d00ffff 2700 (test_prevout\<lparr>op_n := 1\<rparr>)
       Map.empty"
proof -
  have found: "GetSpentCoinFromMainChain test_env pindexPrev test_prevout = Some test_coin"
    for pindexPrev
    by (simp add: test_env_simps test_spent_lookup_def)
  have missed:
    "GetSpentCoinFromMainChain test_env (test_block 100) (test_prevout\<lparr>op_n := 1\<rparr>) = None"
    by (simp add: test_env_simps test_spent_lookup_def test_prevout_def)
  note eval = test_env_simps test_coin_def test_GetAncestor_def test_chain_def test_block_def
    test_p2pk_def test_p2pkh_def pubkeyhash_script_def CheckStakeKernelHash_def
    SetCompact_std_limit SetCompact_std_small Hash_fixed_def Let_def word_le_nat_alt
  have accept: "CheckKernel test_env (test_block 100) 0x1d00ffff 2700 test_prevout Map.empty"
    using found [of "test_block 100"]
      CheckKernel_spent_coin_fallback [where view = Map.empty and prevout = test_prevout
        and env = test_env and pindexPrev = "test_block 100" and nBits = "0x1d00ffff"
        and nTimeBlock = "2700" and cache = Map.empty]
    by (simp add: eval)
  have hit: "CheckKernel_cache test_env (test_block 100) 0x1d00ffff 2700 test_prevout Map.empty
      [test_prevout \<mapsto> \<lparr>cache_blockFromTime = 2000, cache_amount = 1\<rparr>]"
    using found [of "test_block 100"]
      CheckKernel_spent_coin_fallback [where view = Map.empty and prevout = test_prevout
        and env = test_env and pindexPrev = "test_block 100" and nBits = "0x1d00ffff"
        and nTimeBlock = "2700"
        and cache = "[test_prevout \<mapsto> \<lparr>cache_blockFromTime = 2000, cache_amount = 1\<rparr>]"]
    by (simp add: eval)
  have extended: "CheckKernel test_env (test_block 100) 0x1d00ffff 2700 test_prevout
      [test_prevout \<mapsto> test_coin]"
    by (simp add: CheckKernel.simps CheckKernel_cache.simps eval)
  have target: "\<not> CheckKernel test_env (test_block 100) 0x03000001 2700 test_prevout Map.empty"
    using found [of "test_block 100"]
      CheckKernel_spent_coin_fallback [where view = Map.empty and prevout = test_prevout
        and env = test_env and pindexPrev = "test_block 100" and nBits = "0x03000001"
        and nTimeBlock = "2700" and cache = Map.empty]
    by (simp add: eval)
  have immature:
    "\<not> CheckKernel test_env (test_block 95) 0x1d00ffff 2700 test_prevout Map.empty"
    using found [of "test_block 95"]
      CheckKernel_spent_coin_fallback [where view = Map.empty and prevout = test_prevout
        and env = test_env and pindexPrev = "test_block 95" and nBits = "0x1d00ffff"
        and nTimeBlock = "2700" and cache = Map.empty]
    by (simp add: eval)
  have absent:
    "\<not> CheckKernel test_env (test_block 100) 0x1d00ffff 2700 (test_prevout\<lparr>op_n := 1\<rparr>)
        Map.empty"
    using missed
      CheckKernel_spent_coin_fallback [where view = Map.empty
        and prevout = "test_prevout\<lparr>op_n := 1\<rparr>"
        and env = test_env and pindexPrev = "test_block 100" and nBits = "0x1d00ffff"
        and nTimeBlock = "2700" and cache = Map.empty]
    by simp
  show ?thesis
    using found [of "test_block 100"] missed accept hit extended target immature absent
    by simp
qed

subsection \<open>CheckBlockInputPubKeyMatchesOutputPubKey\<close>

text \<open>
  Claim C7. For a block that holds a coinstake (at least two transactions),
  \<open>CheckBlockInputPubKeyMatchesOutputPubKey\<close> returns true exactly when the kernel input's
  coin is in the view, the coinstake has a second output, and either the script of the
  coin equals the script of that output byte for byte, or the script of the coin is
  pay-to-pubkey-hash and the script of the output is pay-to-pubkey with the same key
  identity. In every other case it returns false.
\<close>

theorem CheckBlockInputPubKeyMatchesOutputPubKey_iff:
  assumes "2 \<le> length (vtx block)"
  shows "CheckBlockInputPubKeyMatchesOutputPubKey env block view =
     Some (\<exists>coinIn. view (prevoutStake block) = Some coinIn \<and>
             2 \<le> length (vout (vtx block ! 1)) \<and>
             (scriptPubKey (out coinIn) = scriptPubKey (vout (vtx block ! 1) ! 1) \<or>
              (\<exists>keyID.
                 ExtractDestination env (scriptPubKey (out coinIn)) =
                   Some (CKeyID keyID, TX_PUBKEYHASH) \<and>
                 ExtractDestination env (scriptPubKey (vout (vtx block ! 1) ! 1)) =
                   Some (CKeyID keyID, TX_PUBKEY))))"
proof (cases "view (prevoutStake block)")
  case None
  then show ?thesis
    by (simp add: CheckBlockInputPubKeyMatchesOutputPubKey_def)
next
  case (Some coinIn)
  show ?thesis
  proof (cases "length (vout (vtx block ! 1)) < 2")
    case True
    with Some assms show ?thesis
      by (simp add: CheckBlockInputPubKeyMatchesOutputPubKey_def Let_def)
  next
    case False
    with Some assms show ?thesis
      by (auto simp: CheckBlockInputPubKeyMatchesOutputPubKey_def Let_def is_CKeyID_def
          split: option.splits prod.splits)
  qed
qed


theorem CheckBlockInputPubKeyMatchesOutputPubKey_iff_witness:
  "2 \<le> length (vtx (test_cblock test_p2pk)) \<and>
   CheckBlockInputPubKeyMatchesOutputPubKey test_env (test_cblock test_p2pk)
     [test_prevout \<mapsto> test_coin] = Some True \<and>
   CheckBlockInputPubKeyMatchesOutputPubKey test_env (test_cblock test_p2pkh)
     [test_prevout \<mapsto> test_coin] = Some True \<and>
   CheckBlockInputPubKeyMatchesOutputPubKey test_env (test_cblock burn_script)
     [test_prevout \<mapsto> test_coin] = Some False \<and>
   CheckBlockInputPubKeyMatchesOutputPubKey test_env (test_cblock test_p2pk) Map.empty =
     Some False"
proof -
  have len: "2 \<le> length (vtx (test_cblock script))" for script
    by (simp add: test_cblock_def)
  show ?thesis
    using len [of test_p2pk]
      CheckBlockInputPubKeyMatchesOutputPubKey_iff [OF len [of test_p2pk], of test_env
        "[test_prevout \<mapsto> test_coin]"]
      CheckBlockInputPubKeyMatchesOutputPubKey_iff [OF len [of test_p2pkh], of test_env
        "[test_prevout \<mapsto> test_coin]"]
      CheckBlockInputPubKeyMatchesOutputPubKey_iff [OF len [of burn_script], of test_env
        "[test_prevout \<mapsto> test_coin]"]
      CheckBlockInputPubKeyMatchesOutputPubKey_iff [OF len [of test_p2pk], of test_env
        Map.empty]
    by (simp add: test_cblock_def test_env_simps test_coin_def test_ExtractDestination_def
        test_p2pk_def test_p2pkh_def pubkeyhash_script_def burn_script_def)
qed

subsection \<open>NeedToEraseScriptFromCache\<close>

lemma int32_wrap_id:
  "- 2147483648 \<le> x \<Longrightarrow> x \<le> 2147483647 \<Longrightarrow> int32_wrap x = x"
  by (simp add: int32_wrap_def)

text \<open>
  Claim C4. Where the two bounds \<open>nBlockHeight - nCacheScripts\<close> and
  \<open>nBlockHeight + nCacheScripts\<close> are values of a 32-bit \<^verbatim>\<open>int\<close> (the subtraction and the
  addition do not overflow), \<open>NeedToEraseScriptFromCache\<close> returns true exactly for an
  entry whose height is below \<open>nBlockHeight - nCacheScripts\<close> or above
  \<open>nBlockHeight + nCacheScripts\<close>, or at whose height the active chain has a block with a
  hash other than the stored one. An entry inside the window whose stored hash is the hash
  of the active chain's block at its height is kept. (Where the active chain has no block
  at the height there is no hash to differ from, and an entry inside the window is kept.)
\<close>

theorem NeedToEraseScriptFromCache_iff:
  assumes "- 2147483648 \<le> nBlockHeight - nCacheScripts"
    and "nBlockHeight - nCacheScripts \<le> 2147483647"
    and "- 2147483648 \<le> nBlockHeight + nCacheScripts"
    and "nBlockHeight + nCacheScripts \<le> 2147483647"
  shows
  "NeedToEraseScriptFromCache env nBlockHeight nCacheScripts nScriptHeight scriptElement =
     (nScriptHeight < nBlockHeight - nCacheScripts \<or>
      nBlockHeight + nCacheScripts < nScriptHeight \<or>
      (\<exists>pblockindex. chainActive env nScriptHeight = Some pblockindex \<and>
         blockHash pblockindex \<noteq> elem_hash scriptElement)) \<and>
   (nBlockHeight - nCacheScripts \<le> nScriptHeight \<and>
    nScriptHeight \<le> nBlockHeight + nCacheScripts \<and>
    chainActive env nScriptHeight = Some b \<and> blockHash b = elem_hash scriptElement \<longrightarrow>
      \<not> NeedToEraseScriptFromCache env nBlockHeight nCacheScripts nScriptHeight scriptElement)"
proof -
  have lo: "int32_wrap (nBlockHeight - nCacheScripts) = nBlockHeight - nCacheScripts"
    using assms(1,2) by (rule int32_wrap_id)
  have hi: "int32_wrap (nBlockHeight + nCacheScripts) = nBlockHeight + nCacheScripts"
    using assms(3,4) by (rule int32_wrap_id)
  show ?thesis
    by (auto simp: NeedToEraseScriptFromCache_def lo hi split: option.splits)
qed

theorem NeedToEraseScriptFromCache_iff_witness:
  "(- 2147483648 \<le> (50::int) - 7 \<and> (50::int) - 7 \<le> 2147483647 \<and>
    - 2147483648 \<le> (50::int) + 7 \<and> (50::int) + 7 \<le> 2147483647) \<and>
   NeedToEraseScriptFromCache test_env 50 7 42 \<lparr>elem_script = burn_script, elem_hash = 43\<rparr> \<and>
   NeedToEraseScriptFromCache test_env 50 7 58 \<lparr>elem_script = burn_script, elem_hash = 59\<rparr> \<and>
   NeedToEraseScriptFromCache test_env 50 7 45 \<lparr>elem_script = burn_script, elem_hash = 99\<rparr> \<and>
   (50 - 7 \<le> (43::int) \<and> (43::int) \<le> 50 + 7 \<and>
    chainActive test_env 43 = Some (test_block 43) \<and> blockHash (test_block 43) = 44) \<and>
   \<not> NeedToEraseScriptFromCache test_env 50 7 43 \<lparr>elem_script = burn_script, elem_hash = 44\<rparr> \<and>
   \<not> NeedToEraseScriptFromCache test_env 50 7 57 \<lparr>elem_script = burn_script, elem_hash = 58\<rparr>"
proof -
  have b1: "- 2147483648 \<le> (50::int) - 7" and b2: "(50::int) - 7 \<le> 2147483647"
    and b3: "- 2147483648 \<le> (50::int) + 7" and b4: "(50::int) + 7 \<le> 2147483647"
    by simp_all
  show ?thesis
    using b1 b2 b3 b4
      NeedToEraseScriptFromCache_iff [OF b1 b2 b3 b4, of test_env "42"
        "\<lparr>elem_script = burn_script, elem_hash = 43\<rparr>" "test_block 42"]
      NeedToEraseScriptFromCache_iff [OF b1 b2 b3 b4, of test_env "58"
        "\<lparr>elem_script = burn_script, elem_hash = 59\<rparr>" "test_block 58"]
      NeedToEraseScriptFromCache_iff [OF b1 b2 b3 b4, of test_env "45"
        "\<lparr>elem_script = burn_script, elem_hash = 99\<rparr>" "test_block 45"]
      NeedToEraseScriptFromCache_iff [OF b1 b2 b3 b4, of test_env "43"
        "\<lparr>elem_script = burn_script, elem_hash = 44\<rparr>" "test_block 43"]
      NeedToEraseScriptFromCache_iff [OF b1 b2 b3 b4, of test_env "57"
        "\<lparr>elem_script = burn_script, elem_hash = 58\<rparr>" "test_block 57"]
    by (simp add: test_env_def test_chain_def test_block_def)
qed

text \<open>
  Beyond those bounds the window is not the one the comment in the source names: with
  \<open>nBlockHeight = 2147483647\<close> and \<open>nCacheScripts = 1\<close> the upper bound wraps around to
  \<open>- 2147483648\<close>, and the entry at the height 2147483647 is erased.
\<close>

lemma NeedToEraseScriptFromCache_wrapped:
  "NeedToEraseScriptFromCache env 2147483647 1 2147483647 scriptElement"
  by (simp add: NeedToEraseScriptFromCache_def int32_wrap_def)

subsection \<open>CreateMPoSOutputs\<close>

declare GetMPoSOutputScripts_loop.simps [simp del]

lemma AddMPoSScript_cases:
  "(\<exists>script m'. AddMPoSScript env l h cp m = (True, l @ [script], m') \<and>
                AddMPoSScript env [] h cp m = (True, [script], m')) \<or>
   (\<exists>m'. AddMPoSScript env l h cp m = (False, l, m'))"
proof (cases "chainActive env h")
  case None
  then show ?thesis
    by (simp add: AddMPoSScript_def)
next
  case (Some pblockindex)
  obtain r script m1 where rd: "ReadFromScriptCache env [] pblockindex h cp m = (r, script, m1)"
    by (cases "ReadFromScriptCache env [] pblockindex h cp m") auto
  show ?thesis
  proof (cases r)
    case True
    with Some rd show ?thesis
      by (simp add: AddMPoSScript_def)
  next
    case False
    with Some rd show ?thesis
      by (cases "ReadStakeIndex env h") (simp_all add: AddMPoSScript_def Let_def)
  qed
qed

lemma resolves_length: "resolves env cp m hs scripts m' \<Longrightarrow> length scripts = length hs"
  by (induction rule: resolves.induct) simp_all

lemma heights_step:
  assumes "i < N - 1"
  shows "map (\<lambda>k. nH - i - int k) [0..<nat (N - 1 - i)] =
         (nH - i) # map (\<lambda>k. nH - (i + 1) - int k) [0..<nat (N - 1 - (i + 1))]"
proof -
  have n: "nat (N - 1 - i) = Suc (nat (N - 1 - (i + 1)))"
    using assms by simp
  show ?thesis
    unfolding n by (simp add: upt_rec [of 0] map_Suc_upt [symmetric] del: upt_Suc) 
qed

lemma GetMPoSOutputScripts_loop_resolves:
  "GetMPoSOutputScripts_loop env cp nH i ret l m = (True, l', m') \<Longrightarrow>
   ret \<and> (\<exists>scripts. l' = l @ scripts \<and>
      resolves env cp m
        (map (\<lambda>k. nH - i - int k) [0..<nat (nMPoSRewardRecipients cp - 1 - i)]) scripts m')"
proof (induction env cp nH i ret l m rule: GetMPoSOutputScripts_loop.induct)
  case (1 env cp nH i ret l m)
  show ?case
  proof (cases "i < nMPoSRewardRecipients cp - 1 \<and> ret")
    case False
    with "1.prems" have "ret" and "l' = l" and "m' = m"
      by (simp_all add: GetMPoSOutputScripts_loop.simps [of env cp nH i ret l m])
    moreover from False \<open>ret\<close> have "nat (nMPoSRewardRecipients cp - 1 - i) = 0"
      by simp
    ultimately show ?thesis
      by (simp add: resolves_Nil)
  next
    case True
    then have i: "i < nMPoSRewardRecipients cp - 1" and ret: ret
      by simp_all
    have unfold: "GetMPoSOutputScripts_loop env cp nH i ret l m =
        (case AddMPoSScript env l (nH - i) cp m of
           (r, l1, m1) \<Rightarrow> GetMPoSOutputScripts_loop env cp nH (i + 1) (ret \<and> r) l1 m1)"
      using True by (subst GetMPoSOutputScripts_loop.simps) simp
    from AddMPoSScript_cases [of env l "nH - i" cp m] show ?thesis
    proof (elim disjE exE conjE)
      fix script m1
      assume a: "AddMPoSScript env l (nH - i) cp m = (True, l @ [script], m1)"
        and b: "AddMPoSScript env [] (nH - i) cp m = (True, [script], m1)"
      from "1.prems" [unfolded unfold a prod.case] ret
      have rec: "GetMPoSOutputScripts_loop env cp nH (i + 1) True (l @ [script]) m1 = (True, l', m')"
        by simp
      from "1.IH" [OF True a [symmetric] refl] rec True
      obtain scripts where l': "l' = (l @ [script]) @ scripts"
        and res: "resolves env cp m1
          (map (\<lambda>k. nH - (i + 1) - int k) [0..<nat (nMPoSRewardRecipients cp - 1 - (i + 1))])
          scripts m'"
        by auto
      from b res have "resolves env cp m
          (map (\<lambda>k. nH - i - int k) [0..<nat (nMPoSRewardRecipients cp - 1 - i)])
          (script # scripts) m'"
        unfolding heights_step [OF i] by (rule resolves_Cons)
      with l' ret show ?thesis
        by auto
    next
      fix m1
      assume a: "AddMPoSScript env l (nH - i) cp m = (False, l, m1)"
      from "1.prems" [unfolded unfold a prod.case]
      have rec: "GetMPoSOutputScripts_loop env cp nH (i + 1) False l m1 = (True, l', m')"
        by simp
      then show ?thesis
        by (simp add: GetMPoSOutputScripts_loop.simps [of env cp nH "i + 1" False l m1])
    qed
  qed
qed

lemma CreateMPoSOutputs_loop_eq:
  "CreateMPoSOutputs_loop txNew nRewardPiece scripts =
   txNew\<lparr>vout := vout txNew @
     map (\<lambda>script. \<lparr>nValue = nRewardPiece, scriptPubKey = script\<rparr>) scripts\<rparr>"
  by (induction scripts arbitrary: txNew) simp_all

lemmas mpos_eval =
  CreateMPoSOutputs_def GetMPoSOutputScripts_def GetMPoSOutputScripts_loop.simps
  AddMPoSScript_def ReadFromScriptCache_def AddToScriptCache_def CleanScriptCache_def
  NeedToEraseScriptFromCache_def int32_wrap_def nCacheScripts_of_def test_env_def
  test_params_def
  test_chain_def test_block_def test_stake_index_def test_tx_def Let_def

text \<open>
  Claim C6. When \<open>CreateMPoSOutputs\<close> returns true for the reward share
  \<open>nRewardPiece\<close> at the height \<open>nHeight\<close>, with \<open>nMPoSRewardRecipients\<close> recipients, it
  has appended to the outputs of \<^verbatim>\<open>txNew\<close> exactly \<open>nMPoSRewardRecipients - 1\<close> outputs
  (none when that is not positive) and changed nothing else in it. The appended outputs
  carry, in this order, the scripts resolved at the heights \<open>nHeight - COINBASE_MATURITY\<close>,
  \<open>nHeight - COINBASE_MATURITY - 1\<close> and so on, and each has the value \<open>nRewardPiece\<close>.
\<close>

theorem CreateMPoSOutputs_outputs:
  assumes "fst (CreateMPoSOutputs env txNew nRewardPiece nHeight consensusParams scriptsMap)"
  shows "\<exists>scripts.
     length scripts = nat (nMPoSRewardRecipients consensusParams - 1) \<and>
     resolves env consensusParams scriptsMap
       (recipient_heights env consensusParams nHeight) scripts
       (snd (snd (CreateMPoSOutputs env txNew nRewardPiece nHeight consensusParams scriptsMap))) \<and>
     fst (snd (CreateMPoSOutputs env txNew nRewardPiece nHeight consensusParams scriptsMap)) =
       txNew\<lparr>vout := vout txNew @
         map (\<lambda>script. \<lparr>nValue = nRewardPiece, scriptPubKey = script\<rparr>) scripts\<rparr>"
proof -
  obtain r l' m' where g:
    "GetMPoSOutputScripts env [] nHeight consensusParams scriptsMap = (r, l', m')"
    by (cases "GetMPoSOutputScripts env [] nHeight consensusParams scriptsMap") auto
  with assms have r: r
    by (cases r) (simp_all add: CreateMPoSOutputs_def)
  with g have "GetMPoSOutputScripts_loop env consensusParams (nHeight - COINBASE_MATURITY env)
      0 True [] scriptsMap = (True, l', m')"
    by (simp add: GetMPoSOutputScripts_def)
  from GetMPoSOutputScripts_loop_resolves [OF this]
  have res: "resolves env consensusParams scriptsMap
      (recipient_heights env consensusParams nHeight) l' m'"
    by (simp add: recipient_heights_def)
  from resolves_length [OF res]
  have "length l' = nat (nMPoSRewardRecipients consensusParams - 1)"
    by (simp add: recipient_heights_def)
  with res g r show ?thesis
    by (auto simp: CreateMPoSOutputs_def CreateMPoSOutputs_loop_eq)
qed

theorem CreateMPoSOutputs_outputs_witness:
  "fst (CreateMPoSOutputs test_env test_tx 5 100 test_params Map.empty) \<and>
   recipient_heights test_env test_params 100 = [90, 89] \<and>
   (\<exists>scripts. length scripts = 2 \<and>
      resolves test_env test_params Map.empty [90, 89] scripts
        (snd (snd (CreateMPoSOutputs test_env test_tx 5 100 test_params Map.empty))) \<and>
      fst (snd (CreateMPoSOutputs test_env test_tx 5 100 test_params Map.empty)) =
        test_tx\<lparr>vout := vout test_tx @
          map (\<lambda>script. \<lparr>nValue = 5, scriptPubKey = script\<rparr>) scripts\<rparr>) \<and>
   vout (fst (snd (CreateMPoSOutputs test_env test_tx 5 100 test_params Map.empty))) =
     [\<lparr>nValue = 0, scriptPubKey = []\<rparr>, \<lparr>nValue = 2, scriptPubKey = test_p2pk\<rparr>,
      \<lparr>nValue = 5, scriptPubKey = pubkeyhash_script 0x11\<rparr>,
      \<lparr>nValue = 5, scriptPubKey = burn_script\<rparr>]"
proof -
  have ok: "fst (CreateMPoSOutputs test_env test_tx 5 100 test_params Map.empty)"
    by (simp add: mpos_eval)
  have heights: "recipient_heights test_env test_params 100 = [90, 89]"
    by (simp add: recipient_heights_def test_env_simps test_params_def upt_rec)
  have n: "nat (nMPoSRewardRecipients test_params - 1) = 2"
    by (simp add: test_params_def)
  have outs:
    "vout (fst (snd (CreateMPoSOutputs test_env test_tx 5 100 test_params Map.empty))) =
     [\<lparr>nValue = 0, scriptPubKey = []\<rparr>, \<lparr>nValue = 2, scriptPubKey = test_p2pk\<rparr>,
      \<lparr>nValue = 5, scriptPubKey = pubkeyhash_script 0x11\<rparr>,
      \<lparr>nValue = 5, scriptPubKey = burn_script\<rparr>]"
    by (simp add: mpos_eval)
  show ?thesis
    using ok heights outs CreateMPoSOutputs_outputs [OF ok, unfolded heights n] by blast
qed

text \<open>
  Claim C9. When \<open>GetMPoSOutputScripts\<close> returns false, \<open>CreateMPoSOutputs\<close> returns
  false and \<^verbatim>\<open>txNew\<close> is as it was: none of the scripts that were resolved before the
  failure is appended.
\<close>

theorem CreateMPoSOutputs_atomic:
  assumes "\<not> fst (GetMPoSOutputScripts env [] nHeight consensusParams scriptsMap)"
  shows "CreateMPoSOutputs env txNew nRewardPiece nHeight consensusParams scriptsMap =
     (False, txNew, snd (snd (GetMPoSOutputScripts env [] nHeight consensusParams scriptsMap)))"
proof -
  obtain r l' m' where g:
    "GetMPoSOutputScripts env [] nHeight consensusParams scriptsMap = (r, l', m')"
    by (cases "GetMPoSOutputScripts env [] nHeight consensusParams scriptsMap") auto
  with assms show ?thesis
    by (simp add: CreateMPoSOutputs_def)
qed


text \<open>
  At the height 90 the first recipient (height 80) is resolved and the second (height 79)
  is not: the list of scripts holds one script, the transaction is unchanged.
\<close>

theorem CreateMPoSOutputs_atomic_witness:
  "\<not> fst (GetMPoSOutputScripts test_env [] 90 test_params Map.empty) \<and>
   fst (snd (GetMPoSOutputScripts test_env [] 90 test_params Map.empty)) =
     [pubkeyhash_script 0x11] \<and>
   \<not> fst (CreateMPoSOutputs test_env test_tx 5 90 test_params Map.empty) \<and>
   fst (snd (CreateMPoSOutputs test_env test_tx 5 90 test_params Map.empty)) = test_tx"
proof -
  have failed: "\<not> fst (GetMPoSOutputScripts test_env [] 90 test_params Map.empty)"
    by (simp add: mpos_eval)
  have partial: "fst (snd (GetMPoSOutputScripts test_env [] 90 test_params Map.empty)) =
      [pubkeyhash_script 0x11]"
    by (simp add: mpos_eval)
  show ?thesis
    using failed partial CreateMPoSOutputs_atomic [OF failed, of test_tx "5"] by simp
qed

end
